theory Spec2Isabelle
  imports Complex_Main
begin

section \<open>Python values and exceptions\<close>

text \<open>
  The services are Python. Values of type \<open>Any\<close> (dictionary values, attribute values)
  are modelled by \<open>pyval\<close>; a \<open>Dict[str, Any]\<close> is an association list. Floats are
  modelled as reals: the code compares and clamps them, it never rounds. Text is modelled
  as a list of 8-bit characters. Every \<open>raise\<close> is a value \<open>Inl e\<close> of a sum type.
\<close>

datatype pyval =
    PNone
  | PBool bool
  | PInt int
  | PFloat real
  | PStr string
  | PList "pyval list"
  | PDict "(string \<times> pyval) list"

datatype error =
    AttributeError string
  | KeyError string
  | TypeError string
  | ValueError string
  | ValidationError string
  | ConnectionTimeout string
  | RequestError string
  | SearchServiceError string
  | PlainException string
  | RetryError error

type_synonym pydict = "(string \<times> pyval) list"

text \<open>Sequencing of steps that may raise: the first error ends the computation.\<close>

definition and_then :: "error + 'a \<Rightarrow> ('a \<Rightarrow> error + 'b) \<Rightarrow> error + 'b" where
  "and_then r f = (case r of Inl e \<Rightarrow> Inl e | Inr v \<Rightarrow> f v)"

text \<open>\<open>d[k]\<close> raises \<open>KeyError\<close> on an absent key; \<open>d.get(k, default)\<close> does not.\<close>

definition getitem :: "pydict \<Rightarrow> string \<Rightarrow> error + pyval" where
  "getitem d k = (case map_of d k of None \<Rightarrow> Inl (KeyError k) | Some v \<Rightarrow> Inr v)"

definition dict_get :: "pydict \<Rightarrow> string \<Rightarrow> pyval \<Rightarrow> pyval" where
  "dict_get d k dflt = (case map_of d k of None \<Rightarrow> dflt | Some v \<Rightarrow> v)"

definition keys :: "pydict \<Rightarrow> string set" where
  "keys d = set (map fst d)"

text \<open>Truthiness of an optional list and of an optional float, as \<open>if v:\<close> and \<open>any\<close> test it.\<close>

definition truthy_list :: "'a list option \<Rightarrow> bool" where
  "truthy_list v = (case v of None \<Rightarrow> False | Some xs \<Rightarrow> xs \<noteq> [])"

definition truthy_float :: "real option \<Rightarrow> bool" where
  "truthy_float v = (case v of None \<Rightarrow> False | Some x \<Rightarrow> x \<noteq> 0)"

section \<open>search-service: models/search\_model.py\<close>

definition MIN_QUERY_LENGTH :: nat where "MIN_QUERY_LENGTH = 3"
definition MAX_QUERY_LENGTH :: nat where "MAX_QUERY_LENGTH = 500"
definition DEFAULT_PAGE_SIZE :: int where "DEFAULT_PAGE_SIZE = 20"
definition MAX_PAGE_SIZE :: int where "MAX_PAGE_SIZE = 100"
definition MIN_QUALITY_SCORE :: real where "MIN_QUALITY_SCORE = 0"
definition MAX_QUALITY_SCORE :: real where "MAX_QUALITY_SCORE = 1"

text \<open>
  \<open>SearchQuery\<close>: the fields the model class declares. The fields \<open>from_\<close> and
  \<open>size\<close> are written \<open>from_param\<close> and \<open>size_param\<close> here. An optional field
  that was not passed holds its default.
\<close>

record SearchQuery =
  query_text :: string
  platforms :: "string list option"
  tags :: "string list option"
  min_quality_score :: "real option"
  from_param :: "int option"
  size_param :: "int option"
  sort_options :: "pydict option"

definition valid_platforms :: "string set" where
  "valid_platforms = {''SIEM'', ''EDR'', ''NSM''}"

definition validate_platforms :: "string list option \<Rightarrow> error + string list option" where
  "validate_platforms v =
     (if truthy_list v \<and> set (the v) - valid_platforms \<noteq> {}
      then Inl (ValueError ''Invalid platform types'')
      else Inr v)"

text \<open>
  \<open>str.isalnum\<close>: every character alphanumeric, and at least one. A character is a code
  point below 256; the alphanumeric ones are the ASCII digits and letters, the letters of
  the upper half (\<open>0xAA\<close>, \<open>0xB5\<close>, \<open>0xBA\<close>, \<open>0xC0\<close> to \<open>0xFF\<close> without the signs
  \<open>0xD7\<close> and \<open>0xF7\<close>), the superscript digits (\<open>0xB2\<close>, \<open>0xB3\<close>, \<open>0xB9\<close>) and the
  fractions (\<open>0xBC\<close> to \<open>0xBE\<close>).
\<close>

definition char_isalnum :: "char \<Rightarrow> bool" where
  "char_isalnum c =
     (let n = (of_char c :: nat) in
        (48 \<le> n \<and> n \<le> 57) \<or> (65 \<le> n \<and> n \<le> 90) \<or> (97 \<le> n \<and> n \<le> 122) \<or>
        n = 170 \<or> n = 178 \<or> n = 179 \<or> n = 181 \<or> n = 185 \<or> n = 186 \<or>
        (188 \<le> n \<and> n \<le> 190) \<or> (192 \<le> n \<and> n \<le> 214) \<or>
        (216 \<le> n \<and> n \<le> 246) \<or> (248 \<le> n \<and> n \<le> 255))"

definition isalnum :: "string \<Rightarrow> bool" where
  "isalnum s = (s \<noteq> [] \<and> list_all char_isalnum s)"

definition tag_error :: "string \<Rightarrow> error option" where
  "tag_error tag =
     (if \<not> isalnum tag \<and>
         \<not> list_all (\<lambda>c. c \<in> set ''-_'') (filter (\<lambda>c. \<not> char_isalnum c) tag)
      then Some (ValueError ''Invalid tag format'')
      else if length tag > 50 then Some (ValueError ''Tag too long'')
      else None)"

fun first_tag_error :: "string list \<Rightarrow> error option" where
  "first_tag_error [] = None"
| "first_tag_error (tag # rest) =
     (case tag_error tag of Some e \<Rightarrow> Some e | None \<Rightarrow> first_tag_error rest)"

definition validate_tags :: "string list option \<Rightarrow> error + string list option" where
  "validate_tags v =
     (if truthy_list v
      then (case first_tag_error (the v) of Some e \<Rightarrow> Inl e | None \<Rightarrow> Inr v)
      else Inr v)"

text \<open>
  Construction of a \<open>SearchQuery\<close>: the declared field constraints and the two validators.
  Any failure is reported by the model class as a validation error.
\<close>

definition SearchQuery_validate :: "SearchQuery \<Rightarrow> error + SearchQuery" where
  "SearchQuery_validate q =
     (if length (query_text q) < MIN_QUERY_LENGTH \<or> MAX_QUERY_LENGTH < length (query_text q)
      then Inl (ValidationError ''query_text'')
      else case validate_platforms (platforms q) of
        Inl e \<Rightarrow> Inl (ValidationError ''platforms'')
      | Inr p \<Rightarrow>
      (case validate_tags (tags q) of
        Inl e \<Rightarrow> Inl (ValidationError ''tags'')
      | Inr t \<Rightarrow>
      (if (case min_quality_score q of None \<Rightarrow> False
           | Some m \<Rightarrow> m < MIN_QUALITY_SCORE \<or> MAX_QUALITY_SCORE < m)
       then Inl (ValidationError ''min_quality_score'')
       else if (case from_param q of None \<Rightarrow> False | Some f \<Rightarrow> f < 0)
       then Inl (ValidationError ''from_'')
       else if (case size_param q of None \<Rightarrow> False | Some s \<Rightarrow> s < 1 \<or> MAX_PAGE_SIZE < s)
       then Inl (ValidationError ''size'')
       else Inr (q\<lparr>platforms := p, tags := t\<rparr>))))"

text \<open>
  Attribute access on a \<open>SearchQuery\<close>: the model class has exactly the seven declared
  fields, and reading any other name raises \<open>AttributeError\<close>.
\<close>

definition opt_val :: "('a \<Rightarrow> pyval) \<Rightarrow> 'a option \<Rightarrow> pyval" where
  "opt_val f v = (case v of None \<Rightarrow> PNone | Some x \<Rightarrow> f x)"

definition SearchQuery_getattr :: "SearchQuery \<Rightarrow> string \<Rightarrow> error + pyval" where
  "SearchQuery_getattr q a =
     (if a = ''query_text'' then Inr (PStr (query_text q))
      else if a = ''platforms'' then Inr (opt_val (\<lambda>xs. PList (map PStr xs)) (platforms q))
      else if a = ''tags'' then Inr (opt_val (\<lambda>xs. PList (map PStr xs)) (tags q))
      else if a = ''min_quality_score'' then Inr (opt_val PFloat (min_quality_score q))
      else if a = ''from_'' then Inr (opt_val PInt (from_param q))
      else if a = ''size'' then Inr (opt_val PInt (size_param q))
      else if a = ''sort_options'' then Inr (opt_val PDict (sort_options q))
      else Inl (AttributeError a))"

section \<open>search-service: utils/query\_builder.py\<close>

text \<open>
  The boost constants are floats in the source and are used only inside formatted field
  names (\<open>f"name^{DEFAULT_BOOST_NAME}"\<close>); they are kept in their printed form.
\<close>

definition DEFAULT_BOOST_NAME :: string where "DEFAULT_BOOST_NAME = ''2.0''"
definition DEFAULT_BOOST_DESCRIPTION :: string where "DEFAULT_BOOST_DESCRIPTION = ''1.5''"
definition DEFAULT_BOOST_CONTENT :: string where "DEFAULT_BOOST_CONTENT = ''1.0''"
definition MIN_SHOULD_MATCH :: string where "MIN_SHOULD_MATCH = ''2''"
definition DEFAULT_FRAGMENT_SIZE :: nat where "DEFAULT_FRAGMENT_SIZE = 150"
definition MAX_FRAGMENTS :: nat where "MAX_FRAGMENTS = 3"
definition QUERY_TIMEOUT :: string where "QUERY_TIMEOUT = ''1s''"

text \<open>
  \<open>str.split()\<close> without arguments: the maximal runs of non-whitespace characters, in
  order. The whitespace characters are those of \<open>str.isspace\<close> below code point 256.
  The scan keeps the current run (reversed) and closes it at a whitespace character or at
  the end of the text.
\<close>

definition whitespace_chars :: "char list" where
  "whitespace_chars =
     [CHR 0x09, CHR 0x0A, CHR 0x0B, CHR 0x0C, CHR 0x0D, CHR 0x1C, CHR 0x1D, CHR 0x1E,
      CHR 0x1F, CHR 0x20, CHR 0x85, CHR 0xA0]"

definition isspace :: "char \<Rightarrow> bool" where
  "isspace c = (c \<in> set whitespace_chars)"

fun split_run :: "string \<Rightarrow> string \<Rightarrow> string list" where
  "split_run cur [] = (if cur = [] then [] else [rev cur])"
| "split_run cur (c # cs) =
     (if isspace c
      then (if cur = [] then split_run [] cs else rev cur # split_run [] cs)
      else split_run (c # cur) cs)"

definition split :: "string \<Rightarrow> string list" where
  "split s = split_run [] s"

text \<open>
  The spec's "whitespace-delimited tokens", counted independently of the scan above: a
  token starts at every non-whitespace character that is the first character of the text
  or follows a whitespace character.
\<close>

primrec token_starts :: "bool \<Rightarrow> string \<Rightarrow> nat" where
  "token_starts after_space [] = 0"
| "token_starts after_space (c # cs) =
     (if \<not> isspace c \<and> after_space then 1 else 0) + token_starts (isspace c) cs"

definition spec_token_count :: "string \<Rightarrow> nat" where
  "spec_token_count s = token_starts True s"

record MultiMatch =
  mm_query :: string
  mm_fields :: "string list"
  mm_type :: string
  minimum_should_match :: string
  operator :: string
  fuzziness :: string
  prefix_length :: nat
  max_expansions :: nat
  tie_breaker :: real

datatype score_function =
    Exp_decay string string real
  | Field_value_factor string real string real

record function_score =
  fs_query :: MultiMatch
  fs_functions :: "score_function list"
  score_mode :: string
  boost_mode :: string

definition build_text_query :: "string \<Rightarrow> function_score" where
  "build_text_query text =
     (let query_type = (if length (split text) \<le> 3 then ''best_fields'' else ''most_fields'');
          fields = [''name^'' @ DEFAULT_BOOST_NAME,
                    ''description^'' @ DEFAULT_BOOST_DESCRIPTION,
                    ''content^'' @ DEFAULT_BOOST_CONTENT,
                    ''tags^1.0''];
          text_query = \<lparr>mm_query = text, mm_fields = fields, mm_type = query_type,
                        minimum_should_match = MIN_SHOULD_MATCH, operator = ''and'',
                        fuzziness = ''AUTO'', prefix_length = 2, max_expansions = 50,
                        tie_breaker = 3 / 10\<rparr>
      in \<lparr>fs_query = text_query,
          fs_functions = [Exp_decay ''updated_at'' ''30d'' (1 / 2),
                       Field_value_factor ''quality_score'' (12 / 10) ''sqrt'' 1],
          score_mode = ''sum'', boost_mode = ''multiply''\<rparr>)"

text \<open>
  A filter clause: \<open>Terms name field values\<close> matches documents whose field holds one of
  the values; \<open>Range name field bound\<close> matches documents whose field is at least the
  bound (\<open>gte\<close>).
\<close>

datatype filter_clause =
    Terms string string "string list"
  | Range string string real

definition build_filter_context ::
    "string list option \<Rightarrow> string list option \<Rightarrow> real option \<Rightarrow> filter_clause list" where
  "build_filter_context plats tgs mqs =
     (let filters = [];
          filters = (if truthy_list plats
                     then filters @ [Terms ''platform_filter'' ''platform_type'' (the plats)]
                     else filters);
          filters = (if truthy_list tgs
                     then filters @ [Terms ''tags_filter'' ''tags'' (the tgs)]
                     else filters);
          filters = (if mqs \<noteq> None
                     then filters @ [Range ''quality_filter'' ''quality_score'' (the mqs)]
                     else filters)
      in filters)"

text \<open>Which clauses of a filter context constrain a given document field.\<close>

fun is_terms_on :: "string \<Rightarrow> filter_clause \<Rightarrow> bool" where
  "is_terms_on f (Terms n f' vs) = (f = f')"
| "is_terms_on f (Range n f' b) = False"

fun is_range_on :: "string \<Rightarrow> filter_clause \<Rightarrow> bool" where
  "is_range_on f (Terms n f' vs) = False"
| "is_range_on f (Range n f' b) = (f = f')"

record field_highlight =
  hl_number_of_fragments :: nat
  hl_fragment_size :: nat
  hl_highlight_query :: bool

record highlight_config =
  pre_tags :: "string list"
  post_tags :: "string list"
  number_of_fragments :: nat
  fragment_size :: nat
  order :: string
  hl_type :: string
  hl_fields :: "(string \<times> field_highlight) list"

definition build_highlight_config :: highlight_config where
  "build_highlight_config =
     \<lparr>pre_tags = [''<em>''], post_tags = [''</em>''],
      number_of_fragments = MAX_FRAGMENTS, fragment_size = DEFAULT_FRAGMENT_SIZE,
      order = ''score'', hl_type = ''unified'',
      hl_fields =
        [(''name'', \<lparr>hl_number_of_fragments = 1, hl_fragment_size = 100,
                     hl_highlight_query = False\<rparr>),
         (''description'', \<lparr>hl_number_of_fragments = 2, hl_fragment_size = 150,
                            hl_highlight_query = False\<rparr>),
         (''content'', \<lparr>hl_number_of_fragments = MAX_FRAGMENTS,
                        hl_fragment_size = DEFAULT_FRAGMENT_SIZE,
                        hl_highlight_query = True\<rparr>)]\<rparr>"

text \<open>The search object under construction, one field per builder call of the source.\<close>

record Search =
  query :: "function_score option"
  filter_clauses :: "filter_clause list"
  highlight_options :: "highlight_config option"
  highlight :: "string list"
  extra :: pydict
  source :: "string list"

text \<open>
  The constructor \<open>Search(**kwargs)\<close> of the search library takes the keywords \<open>using\<close>,
  \<open>index\<close>, \<open>doc_type\<close> and \<open>extra\<close>; the first keyword that is none of these raises
  \<open>TypeError\<close>. The new object has no query, filter or highlight yet.
\<close>

definition Search_keywords :: "string list" where
  "Search_keywords = [''using'', ''index'', ''doc_type'', ''extra'']"

definition Search_new :: "pydict \<Rightarrow> error + Search" where
  "Search_new kwargs =
     (case filter (\<lambda>kw. fst kw \<notin> set Search_keywords) kwargs of
        [] \<Rightarrow>
          Inr \<lparr>query = None, filter_clauses = [], highlight_options = None, highlight = [],
               extra = (case map_of kwargs ''extra'' of Some (PDict d) \<Rightarrow> d | _ \<Rightarrow> []),
               source = []\<rparr>
      | kw # others \<Rightarrow> Inl (TypeError (fst kw)))"

text \<open>
  Integer arithmetic on attribute values, for the pagination offset
  \<open>(page_number - 1) * page_size\<close>; an operand that is not a number raises \<open>TypeError\<close>.
\<close>

definition page_offset :: "pyval \<Rightarrow> pyval \<Rightarrow> error + pyval" where
  "page_offset page_number page_size =
     (case (page_number, page_size) of
        (PInt n, PInt s) \<Rightarrow> Inr (PInt ((n - 1) * s))
      | _ \<Rightarrow> Inl (TypeError ''unsupported operand''))"

text \<open>
  \<open>build_search_query\<close>, statement by statement. Its first statement,
  \<open>Search(timeout=QUERY_TIMEOUT)\<close>, is the constructor call; \<open>build_search_query_from\<close>
  is the rest of the body, run on the search object that the constructor gave. The
  pagination step reads the attributes \<open>page_number\<close> and \<open>page_size\<close> of the query
  object.
\<close>

definition build_search_query_from :: "Search \<Rightarrow> SearchQuery \<Rightarrow> error + Search" where
  "build_search_query_from search search_params =
     (let text_query = build_text_query (query_text search_params);
          search = search\<lparr>query := Some text_query\<rparr>;
          search =
            (if truthy_list (platforms search_params) \<or> truthy_list (tags search_params) \<or>
                truthy_float (min_quality_score search_params)
             then search\<lparr>filter_clauses := filter_clauses search @
                    build_filter_context (platforms search_params) (tags search_params)
                      (min_quality_score search_params)\<rparr>
             else search);
          search = search\<lparr>highlight_options := Some build_highlight_config\<rparr>;
          search = search\<lparr>highlight := highlight search @
                     [''name^2'', ''description^1.5'', ''content'']\<rparr>
      in case SearchQuery_getattr search_params ''page_number'' of
           Inl e \<Rightarrow> Inl e
         | Inr page_number \<Rightarrow>
         (case SearchQuery_getattr search_params ''page_size'' of
           Inl e \<Rightarrow> Inl e
         | Inr page_size \<Rightarrow>
         (case page_offset page_number page_size of
           Inl e \<Rightarrow> Inl e
         | Inr off \<Rightarrow>
             Inr (search\<lparr>extra := extra search @
                    [(''from_'', off), (''size'', page_size), (''profile'', PBool True)],
                  source := [''id'', ''name'', ''description'', ''platform_type'',
                             ''quality_score'', ''created_at'', ''updated_at'', ''tags'']\<rparr>))))"

definition build_search_query :: "SearchQuery \<Rightarrow> error + Search" where
  "build_search_query search_params =
     and_then (Search_new [(''timeout'', PStr QUERY_TIMEOUT)])
       (\<lambda>search. build_search_query_from search search_params)"

section \<open>search-service: result models\<close>

record SearchHit =
  hit_id :: pyval
  hit_name :: pyval
  hit_description :: pyval
  hit_platform_type :: pyval
  score :: real
  highlights :: "(string \<times> string list) list"
  hit_created_at :: pyval
  hit_updated_at :: pyval
  hit_metadata :: pydict

text \<open>The validator of the \<open>score\<close> field.\<close>

definition normalize_score :: "real \<Rightarrow> real" where
  "normalize_score v = max 0 (min 1 v)"

text \<open>
  Construction of a \<open>SearchHit\<close>: the declared bounds of \<open>score\<close> (\<open>ge=0.0, le=1.0\<close>) are
  checked first, then the validator runs on the accepted value. Validation happens at
  construction only: the model class does not validate an assignment to a field of an
  existing object.
\<close>

definition SearchHit_validate :: "SearchHit \<Rightarrow> error + SearchHit" where
  "SearchHit_validate h =
     (if score h < 0 \<or> 1 < score h then Inl (ValidationError ''score'')
      else Inr (h\<lparr>score := normalize_score (score h)\<rparr>))"

record SearchResult =
  hits :: "SearchHit list"
  total :: int
  took_ms :: int
  max_score :: real
  aggregations :: pydict
  performance_metrics :: pydict

definition validate_performance :: "pydict \<Rightarrow> error + pydict" where
  "validate_performance v =
     (let required_metrics = {''query_time_ms'', ''total_shards'', ''successful_shards''};
          missing_metrics = required_metrics - keys v
      in if missing_metrics \<noteq> {}
         then Inl (ValueError ''Missing required performance metrics'')
         else Inr v)"

text \<open>
  The keyword arguments of the \<open>SearchResult\<close> constructor. The two dictionary fields have
  the default \<open>dict()\<close>; \<open>None\<close> stands for an argument that was not passed. A validator
  runs on a value that was passed, not on the default.
\<close>

record SearchResult_args =
  arg_hits :: "SearchHit list"
  arg_total :: int
  arg_took_ms :: int
  arg_max_score :: real
  arg_aggregations :: "pydict option"
  arg_performance_metrics :: "pydict option"

definition SearchResult_new :: "SearchResult_args \<Rightarrow> error + SearchResult" where
  "SearchResult_new a =
     (if arg_total a < 0 then Inl (ValidationError ''total'')
      else if arg_took_ms a < 0 then Inl (ValidationError ''took_ms'')
      else if arg_max_score a < 0 then Inl (ValidationError ''max_score'')
      else case (case arg_performance_metrics a of
                   None \<Rightarrow> Inr []
                 | Some v \<Rightarrow> validate_performance v) of
             Inl e \<Rightarrow> Inl (ValidationError ''performance_metrics'')
           | Inr pm \<Rightarrow>
               Inr \<lparr>hits = arg_hits a, total = arg_total a, took_ms = arg_took_ms a,
                    max_score = arg_max_score a,
                    aggregations = (case arg_aggregations a of None \<Rightarrow> [] | Some g \<Rightarrow> g),
                    performance_metrics = pm\<rparr>)"

text \<open>
  \<open>DetectionDocument\<close> and \<open>from_detection\<close>. The required keys are read with
  \<open>detection_data[k]\<close>, the others with \<open>get\<close> and a default; the metadata value must be
  a dictionary for its \<open>get\<close> to exist.
\<close>

record DetectionDocument =
  meta_id :: pyval
  meta_version_type :: "string option"
  meta_version :: "int option"
  doc_id :: pyval
  doc_name :: pyval
  doc_description :: pyval
  doc_content :: pyval
  doc_platform_type :: pyval
  doc_tags :: pyval
  doc_quality_score :: pyval
  doc_created_at :: pyval
  doc_updated_at :: pyval
  doc_metadata :: pydict

definition metadata_of :: "pydict \<Rightarrow> error + pydict" where
  "metadata_of d =
     (case dict_get d ''metadata'' (PDict []) of
        PDict m \<Rightarrow> Inr m
      | _ \<Rightarrow> Inl (AttributeError ''get''))"

definition from_detection :: "pydict \<Rightarrow> error + DetectionDocument" where
  "from_detection detection_data =
     and_then (getitem detection_data ''id'') (\<lambda>i.
     and_then (getitem detection_data ''name'') (\<lambda>n.
     and_then (getitem detection_data ''description'') (\<lambda>d.
     and_then (getitem detection_data ''platform_type'') (\<lambda>p.
     and_then (getitem detection_data ''created_at'') (\<lambda>c.
     and_then (getitem detection_data ''updated_at'') (\<lambda>u.
     and_then (metadata_of detection_data) (\<lambda>m.
       Inr \<lparr>meta_id = i, meta_version_type = None, meta_version = None,
            doc_id = i, doc_name = n, doc_description = d,
            doc_content = dict_get detection_data ''content'' (PStr []),
            doc_platform_type = p,
            doc_tags = dict_get detection_data ''tags'' (PList []),
            doc_quality_score = dict_get detection_data ''quality_score'' (PFloat 0),
            doc_created_at = c, doc_updated_at = u,
            doc_metadata =
              [(''mitre_tactics'', dict_get m ''mitre_tactics'' (PList [])),
               (''mitre_techniques'', dict_get m ''mitre_techniques'' (PList [])),
               (''severity'', dict_get m ''severity'' (PStr ''medium'')),
               (''confidence'', dict_get m ''confidence'' (PFloat 0))]\<rparr>)))))))"

section \<open>search-service: services/search\_service.py\<close>

definition CACHE_TTL :: int where "CACHE_TTL = 300"

text \<open>
  What the search backend answers. A hit carries its document, its relevance score and,
  when the backend produced any, its highlight fragments. The response carries the hits,
  the total, the elapsed time, the maximum score (possibly \<open>None\<close>), and the
  \<open>aggregations\<close> and \<open>_shards\<close> attributes when the backend sent them.
\<close>

record raw_hit =
  hit_source :: pydict
  meta_score :: real
  meta_highlight :: "(string \<times> string list) list option"

record es_response =
  resp_hits :: "raw_hit list"
  hits_total_value :: int
  took :: int
  hits_max_score :: "real option"
  resp_aggregations :: "pydict option"
  resp_shards :: "pydict option"

text \<open>Attribute access on a response object: an absent attribute raises.\<close>

definition attr_get :: "pydict \<Rightarrow> string \<Rightarrow> error + pyval" where
  "attr_get d a = (case map_of d a of None \<Rightarrow> Inl (AttributeError a) | Some v \<Rightarrow> Inr v)"

text \<open>
  \<open>DetectionDocument\<close> defines \<open>from_detection\<close> and nothing else: the call
  \<open>to_search_hit()\<close> on a document raises \<open>AttributeError\<close>.
\<close>

definition to_search_hit :: "DetectionDocument \<Rightarrow> error + SearchHit" where
  "to_search_hit doc = Inl (AttributeError ''to_search_hit'')"

text \<open>
  The loop of \<open>search\<close> over the hits of the response: the document is built from the
  hit, \<open>to_search_hit\<close> is called on it, and the score and the highlights of the backend
  hit are then assigned to the search hit.
\<close>

fun process_hits :: "raw_hit list \<Rightarrow> error + SearchHit list" where
  "process_hits [] = Inr []"
| "process_hits (hit # rest) =
     and_then (from_detection (hit_source hit)) (\<lambda>doc.
     and_then (to_search_hit doc) (\<lambda>search_hit.
       let search_hit = search_hit\<lparr>score := meta_score hit\<rparr>;
           search_hit = search_hit\<lparr>highlights :=
             (case meta_highlight hit of Some h \<Rightarrow> h | None \<Rightarrow> [])\<rparr>
       in and_then (process_hits rest) (\<lambda>more. Inr (search_hit # more))))"

text \<open>The part of \<open>search\<close> that builds the result from the response.\<close>

definition assemble_result :: "es_response \<Rightarrow> error + SearchResult" where
  "assemble_result response =
     and_then (process_hits (resp_hits response)) (\<lambda>hs.
     and_then (case resp_shards response of
                 None \<Rightarrow> Inl (AttributeError ''_shards'')
               | Some s \<Rightarrow> Inr s) (\<lambda>shards.
     and_then (attr_get shards ''total'') (\<lambda>total_shards.
     and_then (attr_get shards ''successful'') (\<lambda>successful_shards.
       SearchResult_new
         \<lparr>arg_hits = hs,
          arg_total = hits_total_value response,
          arg_took_ms = took response,
          arg_max_score = (case hits_max_score response of None \<Rightarrow> 0 | Some m \<Rightarrow> m),
          arg_aggregations =
            Some (case resp_aggregations response of None \<Rightarrow> [] | Some g \<Rightarrow> g),
          arg_performance_metrics =
            Some [(''query_time_ms'', PInt (took response)),
                  (''total_shards'', total_shards),
                  (''successful_shards'', successful_shards)]\<rparr>))))"

text \<open>
  The cache maps a key to a result and the time it was stored. Times are \<open>datetime\<close>
  values, counted here in microseconds. The difference of two times is a \<open>timedelta\<close>,
  which is kept normalised as days, seconds (0 to 86399) and microseconds; its attribute
  \<open>seconds\<close> is the middle component.
\<close>

type_synonym cache = "string \<rightharpoonup> SearchResult \<times> int"

definition timedelta_seconds :: "int \<Rightarrow> int" where
  "timedelta_seconds micros = (micros mod (86400 * 1000000)) div 1000000"

definition get_from_cache :: "int \<Rightarrow> string \<Rightarrow> cache \<Rightarrow> SearchResult option" where
  "get_from_cache now key c =
     (case c key of
        None \<Rightarrow> None
      | Some (result, timestamp) \<Rightarrow>
          if timedelta_seconds (now - timestamp) < CACHE_TTL then Some result else None)"

definition add_to_cache :: "int \<Rightarrow> string \<Rightarrow> SearchResult \<Rightarrow> cache \<Rightarrow> cache" where
  "add_to_cache now key result c = c(key \<mapsto> (result, now))"

definition clear_related_caches :: "pydict \<Rightarrow> cache \<Rightarrow> cache" where
  "clear_related_caches detection_data c = Map.empty"

text \<open>
  The backend as the service sees it: each client call either raises or answers. The
  service state is the cache and the list of backend calls made so far.
\<close>

datatype backend_call = SearchExecute | ClusterHealth | IndicesRefresh | IndicesStats | DocSave

record backend =
  query_hash :: "SearchQuery \<Rightarrow> string"
  execute_search :: "Search \<Rightarrow> error + es_response"
  cluster_health :: "error + pydict"
  indices_refresh :: "error option"
  indices_stats :: "error + pyval"
  doc_save :: "DetectionDocument \<Rightarrow> error option"

record service =
  cache_of :: cache
  calls :: "backend_call list"

definition called :: "backend_call \<Rightarrow> service \<Rightarrow> service" where
  "called c st = st\<lparr>calls := calls st @ [c]\<rparr>"





definition generate_cache_key :: "backend \<Rightarrow> SearchQuery \<Rightarrow> string" where
  "generate_cache_key be q = ''search:'' @ query_hash be q"

text \<open>The decorator \<open>error_handler\<close>: every exception leaves as a \<open>SearchServiceError\<close>.\<close>

definition error_handler :: "(error + 'a) \<times> service \<Rightarrow> (error + 'a) \<times> service" where
  "error_handler r =
     (case fst r of
        Inl (ConnectionTimeout m) \<Rightarrow> (Inl (SearchServiceError ''Search request timed out''), snd r)
      | Inl (RequestError m) \<Rightarrow> (Inl (SearchServiceError ''Invalid search request''), snd r)
      | Inl e \<Rightarrow> (Inl (SearchServiceError ''Internal search service error''), snd r)
      | Inr v \<Rightarrow> r)"

text \<open>
  \<open>search\<close>. The clock is read once by the cache lookup (\<open>now\<close>) and once by the cache
  store (\<open>later\<close>).
\<close>

definition search_body ::
    "backend \<Rightarrow> int \<Rightarrow> int \<Rightarrow> service \<Rightarrow> SearchQuery \<Rightarrow> (error + SearchResult) \<times> service" where
  "search_body be now later st q =
     (let cache_key = generate_cache_key be q in
      case get_from_cache now cache_key (cache_of st) of
        Some cached_result \<Rightarrow> (Inr cached_result, st)
      | None \<Rightarrow>
        (case build_search_query q of
           Inl e \<Rightarrow> (Inl e, st)
         | Inr s \<Rightarrow>
           (let st = called SearchExecute st in
            case execute_search be s of
              Inl e \<Rightarrow> (Inl e, st)
            | Inr response \<Rightarrow>
              (case assemble_result response of
                 Inl e \<Rightarrow> (Inl e, st)
               | Inr result \<Rightarrow>
                   (Inr result,
                    st\<lparr>cache_of := add_to_cache later cache_key result (cache_of st)\<rparr>)))))"

definition search ::
    "backend \<Rightarrow> int \<Rightarrow> int \<Rightarrow> service \<Rightarrow> SearchQuery \<Rightarrow> (error + SearchResult) \<times> service" where
  "search be now later st q = error_handler (search_body be now later st q)"

text \<open>Subscripting a value: \<open>v[k]\<close> on a dictionary; anything else cannot be subscripted.\<close>

definition subscript :: "pyval \<Rightarrow> string \<Rightarrow> error + pyval" where
  "subscript v k =
     (case v of PDict d \<Rightarrow> getitem d k | _ \<Rightarrow> Inl (TypeError ''not subscriptable''))"

text \<open>
  \<open>refresh_index\<close>. Everything is inside \<open>try\<close>; any exception gives \<open>False\<close>.
\<close>

definition refresh_index_body :: "backend \<Rightarrow> service \<Rightarrow> (error + bool) \<times> service" where
  "refresh_index_body be st =
     (let st = called ClusterHealth st in
      case and_then (cluster_health be) (\<lambda>health. getitem health ''status'') of
        Inl e \<Rightarrow> (Inr False, st)
      | Inr status \<Rightarrow>
          if status = PStr ''red'' then (Inr False, st)
          else
            (let st = called IndicesRefresh st in
             case indices_refresh be of
               Some e \<Rightarrow> (Inr False, st)
             | None \<Rightarrow>
               (let st = called IndicesStats st in
                case and_then (indices_stats be) (\<lambda>stats.
                     and_then (subscript stats ''_all'') (\<lambda>a.
                     and_then (subscript a ''total'') (\<lambda>t.
                     and_then (subscript t ''docs'') (\<lambda>d. subscript d ''count'')))) of
                  Inl e \<Rightarrow> (Inr False, st)
                | Inr n \<Rightarrow> (Inr True, st))))"

definition refresh_index :: "backend \<Rightarrow> service \<Rightarrow> (error + bool) \<times> service" where
  "refresh_index be st = error_handler (refresh_index_body be st)"

text \<open>
  \<open>index_detection\<close>. The version is the clock reading in whole seconds. Everything is
  inside \<open>try\<close>; any exception gives \<open>False\<close>.
\<close>

definition with_version :: "int \<Rightarrow> DetectionDocument \<Rightarrow> DetectionDocument" where
  "with_version now doc =
     doc\<lparr>meta_version_type := Some ''external'', meta_version := Some (now div 1000000)\<rparr>"

definition index_detection_body ::
    "backend \<Rightarrow> int \<Rightarrow> service \<Rightarrow> pydict \<Rightarrow> (error + bool) \<times> service" where
  "index_detection_body be now st detection_data =
     (case from_detection detection_data of
        Inl e \<Rightarrow> (Inr False, st)
      | Inr doc \<Rightarrow>
        (let doc = with_version now doc;
             st = called DocSave st
         in case doc_save be doc of
              Some e \<Rightarrow> (Inr False, st)
            | None \<Rightarrow>
                (Inr True,
                 st\<lparr>cache_of := clear_related_caches detection_data (cache_of st)\<rparr>)))"

definition index_detection ::
    "backend \<Rightarrow> int \<Rightarrow> service \<Rightarrow> pydict \<Rightarrow> (error + bool) \<times> service" where
  "index_detection be now st detection_data =
     error_handler (index_detection_body be now st detection_data)"

section \<open>ai-service: services/openai\_service.py\<close>

text \<open>
  \<open>CircuitBreaker\<close>: the failure count and the time of the last recorded failure. Times
  are readings of \<open>time.time()\<close>, in seconds. The property \<open>is_open\<close> also resets the
  count when the timeout has passed, so it returns the breaker together with its answer.
\<close>

record CircuitBreaker =
  failures :: int
  last_failure_time :: real

definition failure_threshold :: int where "failure_threshold = 5"
definition reset_timeout :: real where "reset_timeout = 60"

definition CircuitBreaker_init :: CircuitBreaker where
  "CircuitBreaker_init = \<lparr>failures = 0, last_failure_time = 0\<rparr>"

definition is_open :: "real \<Rightarrow> CircuitBreaker \<Rightarrow> bool \<times> CircuitBreaker" where
  "is_open now cb =
     (if now - last_failure_time cb > reset_timeout
      then (False, cb\<lparr>failures := 0\<rparr>)
      else (failures cb \<ge> failure_threshold, cb))"

definition record_failure :: "real \<Rightarrow> CircuitBreaker \<Rightarrow> CircuitBreaker" where
  "record_failure now cb = cb\<lparr>failures := failures cb + 1, last_failure_time := now\<rparr>"

text \<open>
  One call through the decorator \<open>circuit_breaker\<close>. \<open>outcome\<close> is what the call of the
  wrapped function raises or returns, if the wrapper makes it; \<open>asked_at\<close> is the clock
  when the breaker is asked, \<open>failed_at\<close> the clock when a failure is recorded. The
  answer tells what the caller gets and whether the wrapped function was called at all.
  The wrapper is a plain function: it records what the call itself raises. The methods it
  decorates in this file are \<open>async def\<close>, so what their call returns is a coroutine,
  and an exception raised later, while that coroutine is awaited, is not an outcome here.
\<close>

record 'a call =
  outcome :: "error + 'a"
  asked_at :: real
  failed_at :: real

record 'a answer =
  returned :: "error + 'a"
  reached_backend :: bool

definition circuit_breaker :: "'a call \<Rightarrow> CircuitBreaker \<Rightarrow> 'a answer \<times> CircuitBreaker" where
  "circuit_breaker c cb =
     (case is_open (asked_at c) cb of
        (True, cb) \<Rightarrow>
          (\<lparr>returned = Inl (PlainException ''Service temporarily unavailable''),
            reached_backend = False\<rparr>, cb)
      | (False, cb) \<Rightarrow>
          (case outcome c of
             Inl e \<Rightarrow>
               (\<lparr>returned = Inl e, reached_backend = True\<rparr>, record_failure (failed_at c) cb)
           | Inr v \<Rightarrow> (\<lparr>returned = Inr v, reached_backend = True\<rparr>, cb)))"

text \<open>A sequence of calls through the same breaker, in order.\<close>

fun call_seq :: "'a call list \<Rightarrow> CircuitBreaker \<Rightarrow> 'a answer list \<times> CircuitBreaker" where
  "call_seq [] cb = ([], cb)"
| "call_seq (c # cs) cb =
     (let (a, cb) = circuit_breaker c cb;
          (as, cb) = call_seq cs cb
      in (a # as, cb))"

text \<open>
  \<open>chained prev cs\<close>: every call of \<open>cs\<close> asks the breaker no more than the reset
  timeout after the failure recorded before it (\<open>prev\<close> for the first call).
\<close>

fun chained :: "real \<Rightarrow> 'a call list \<Rightarrow> bool" where
  "chained prev [] = True"
| "chained prev (c # cs) = (asked_at c - prev \<le> reset_timeout \<and> chained (failed_at c) cs)"

text \<open>
  The retry decorator: \<open>stop_after_attempt(3)\<close>,
  \<open>wait_exponential(multiplier=1, min=4, max=10)\<close>, and no \<open>retry\<close> condition, so the
  default applies: any exception is retried. \<open>f n\<close> is what the call of the decorated
  function raises or returns at attempt number \<open>n\<close>. When the last allowed attempt has
  raised, the decorator raises \<open>RetryError\<close> around it.
\<close>

definition stop_after_attempt :: "nat \<Rightarrow> nat \<Rightarrow> bool" where
  "stop_after_attempt max_attempt_number attempt_number =
     (attempt_number \<ge> max_attempt_number)"

definition wait_exponential :: "real \<Rightarrow> real \<Rightarrow> real \<Rightarrow> nat \<Rightarrow> real" where
  "wait_exponential multiplier mn mx attempt_number =
     max (max 0 mn) (min (multiplier * 2 ^ (attempt_number - 1)) mx)"

record 'a retried =
  result :: "error + 'a"
  attempts :: nat
  sleeps :: "real list"

function retry_loop :: "(nat \<Rightarrow> error + 'a) \<Rightarrow> nat \<Rightarrow> real list \<Rightarrow> 'a retried" where
  "retry_loop f n slept =
     (case f n of
        Inr v \<Rightarrow> \<lparr>result = Inr v, attempts = n, sleeps = slept\<rparr>
      | Inl e \<Rightarrow>
          if stop_after_attempt 3 n
          then \<lparr>result = Inl (RetryError e), attempts = n, sleeps = slept\<rparr>
          else retry_loop f (n + 1) (slept @ [wait_exponential 1 4 10 n]))"
  by pat_completeness auto
termination
  by (relation "measure (\<lambda>(f, n, slept). 3 - n)") (auto simp: stop_after_attempt_def)

declare retry_loop.simps [simp del]

definition retry :: "(nat \<Rightarrow> error + 'a) \<Rightarrow> 'a retried" where
  "retry f = retry_loop f 1 []"

section \<open>Sample inputs\<close>

definition sample_detection :: pydict where
  "sample_detection =
     [(''id'', PStr ''det-1''), (''name'', PStr ''Ransomware note dropped''),
      (''description'', PStr ''Detects ransom notes written to user folders''),
      (''platform_type'', PStr ''EDR''),
      (''created_at'', PStr ''2024-01-01T00:00:00''),
      (''updated_at'', PStr ''2024-01-02T00:00:00'')]"

definition sample_response :: "real \<Rightarrow> es_response" where
  "sample_response s =
     \<lparr>resp_hits = [\<lparr>hit_source = sample_detection, meta_score = s, meta_highlight = None\<rparr>],
      hits_total_value = 1, took = 12, hits_max_score = Some s,
      resp_aggregations = None,
      resp_shards = Some [(''total'', PInt 3), (''successful'', PInt 3)]\<rparr>"

definition sample_backend :: "string \<Rightarrow> error option \<Rightarrow> backend" where
  "sample_backend health_status save_outcome =
     \<lparr>query_hash = query_text,
      execute_search = (\<lambda>s. Inr (sample_response 1)),
      cluster_health = Inr [(''status'', PStr health_status)],
      indices_refresh = None,
      indices_stats =
        Inr (PDict [(''_all'', PDict [(''total'', PDict [(''docs'', PDict [(''count'', PInt 1)])])])]),
      doc_save = (\<lambda>d. save_outcome)\<rparr>"

definition sample_result :: SearchResult where
  "sample_result =
     \<lparr>hits = [], total = 0, took_ms = 5, max_score = 0, aggregations = [],
      performance_metrics =
        [(''query_time_ms'', PInt 5), (''total_shards'', PInt 3), (''successful_shards'', PInt 3)]\<rparr>"

text \<open>A cached result with one hit, a query whose cache key finds it, and the service.\<close>

definition cached_result :: SearchResult where
  "cached_result =
     \<lparr>hits = [\<lparr>hit_id = PStr ''det-1'', hit_name = PStr ''Ransomware note dropped'',
               hit_description = PStr ''Detects ransom notes written to user folders'',
               hit_platform_type = PStr ''EDR'', score = 1 / 2, highlights = [],
               hit_created_at = PStr ''2024-01-01T00:00:00'',
               hit_updated_at = PStr ''2024-01-02T00:00:00'', hit_metadata = []\<rparr>],
      total = 1, took_ms = 5, max_score = 1 / 2, aggregations = [],
      performance_metrics =
        [(''query_time_ms'', PInt 5), (''total_shards'', PInt 3), (''successful_shards'', PInt 3)]\<rparr>"



definition spaced_failures :: "unit call list" where
  "spaced_failures =
     [\<lparr>outcome = Inl (PlainException ''call failed''), asked_at = 1000, failed_at = 1001\<rparr>,
      \<lparr>outcome = Inl (PlainException ''call failed''), asked_at = 1100, failed_at = 1101\<rparr>,
      \<lparr>outcome = Inl (PlainException ''call failed''), asked_at = 1200, failed_at = 1201\<rparr>,
      \<lparr>outcome = Inl (PlainException ''call failed''), asked_at = 1300, failed_at = 1301\<rparr>,
      \<lparr>outcome = Inl (PlainException ''call failed''), asked_at = 1400, failed_at = 1401\<rparr>]"

definition quick_failures :: "unit call list" where
  "quick_failures =
     [\<lparr>outcome = Inl (PlainException ''call failed''), asked_at = 1000, failed_at = 1001\<rparr>,
      \<lparr>outcome = Inl (PlainException ''call failed''), asked_at = 1010, failed_at = 1011\<rparr>,
      \<lparr>outcome = Inl (PlainException ''call failed''), asked_at = 1020, failed_at = 1021\<rparr>,
      \<lparr>outcome = Inl (PlainException ''call failed''), asked_at = 1030, failed_at = 1031\<rparr>,
      \<lparr>outcome = Inl (PlainException ''call failed''), asked_at = 1040, failed_at = 1041\<rparr>]"

definition next_call :: "real \<Rightarrow> unit call" where
  "next_call t = \<lparr>outcome = Inr (), asked_at = t, failed_at = t\<rparr>"

text \<open>A call that lacks a required argument: it raises \<open>TypeError\<close> at every attempt.\<close>

definition always_malformed :: "nat \<Rightarrow> error + unit" where
  "always_malformed n = Inl (TypeError ''missing 1 required positional argument'')"

definition third_time_lucky :: "nat \<Rightarrow> error + unit" where
  "third_time_lucky n = (if n < 3 then Inl (PlainException ''call failed'') else Inr ())"

section \<open>Properties of the query builder\<close>

lemma getattr_page_number:
  "SearchQuery_getattr q ''page_number'' = Inl (AttributeError ''page_number'')"
  by (simp add: SearchQuery_getattr_def)

lemma split_run_length:
  "length (split_run cur s) = token_starts (cur = []) s + (if cur = [] then 0 else 1)"
  by (induction s arbitrary: cur) auto

lemma split_length: "length (split s) = spec_token_count s"
  by (simp add: split_def spec_token_count_def split_run_length)

text \<open>
  C9. \<open>build_text_query\<close> puts the matching mode \<open>best_fields\<close> ("best single field
  wins") into the multi-match query of the expression it returns when the query text has
  at most 3 whitespace-delimited tokens, and \<open>most_fields\<close> ("combine signal across
  fields") when it has more than 3. The token count is the spec's, \<open>spec_token_count\<close>,
  which the length of \<open>str.split()\<close> is shown to equal.
\<close>

theorem build_text_query_mode:
  "(spec_token_count text \<le> 3 \<longrightarrow>
      mm_type (fs_query (build_text_query text)) = ''best_fields'') \<and>
   (3 < spec_token_count text \<longrightarrow>
      mm_type (fs_query (build_text_query text)) = ''most_fields'')"
  by (simp add: build_text_query_def Let_def split_length)

theorem build_text_query_mode_witness:
  "spec_token_count ''ransomware detection windows'' \<le> 3 \<and>
   mm_type (fs_query (build_text_query ''ransomware detection windows'')) = ''best_fields'' \<and>
   3 < spec_token_count ''lateral movement on windows hosts'' \<and>
   mm_type (fs_query (build_text_query ''lateral movement on windows hosts'')) = ''most_fields''"
proof -
  have short: "spec_token_count ''ransomware detection windows'' \<le> 3"
    by (simp add: spec_token_count_def isspace_def whitespace_chars_def)
  have long: "3 < spec_token_count ''lateral movement on windows hosts''"
    by (simp add: spec_token_count_def isspace_def whitespace_chars_def)
  from short long
    build_text_query_mode [of "''ransomware detection windows''"]
    build_text_query_mode [of "''lateral movement on windows hosts''"]
  show ?thesis by blast
qed

text \<open>
  C3, as the claim states it, fails: a query that passes an explicit empty platform list
  is accepted by validation, and the compiled filter context holds no clause for it, so the
  empty list is treated as unfiltered rather than rejected.
\<close>

theorem empty_platform_list_counterexample:
  "SearchQuery_validate
     \<lparr>query_text = ''malware'', platforms = Some [], tags = None,
      min_quality_score = None, from_param = Some 0, size_param = Some 20,
      sort_options = None\<rparr>
   = Inr \<lparr>query_text = ''malware'', platforms = Some [], tags = None,
          min_quality_score = None, from_param = Some 0, size_param = Some 20,
          sort_options = None\<rparr> \<and>
   Some ([] :: string list) \<noteq> None \<and>
   build_filter_context (Some []) None None = []"
  by (simp add: SearchQuery_validate_def validate_platforms_def validate_tags_def
      truthy_list_def build_filter_context_def MIN_QUERY_LENGTH_def MAX_QUERY_LENGTH_def
      MAX_PAGE_SIZE_def)

text \<open>
  C3, amended. The filter context compiled by \<open>build_filter_context\<close> holds the platform
  set-membership clause exactly when a non-empty platform list is given, the tag clause
  exactly when a non-empty tag list is given, and the greater-than-or-equal quality bound
  exactly when a minimum quality score is given, the value 0 included; an absent input and
  an empty list both contribute no clause, and there are no other clauses.
\<close>

theorem build_filter_context_clauses:
  "filter (is_terms_on ''platform_type'') (build_filter_context p t m) =
     (case p of None \<Rightarrow> []
      | Some ps \<Rightarrow> if ps = [] then [] else [Terms ''platform_filter'' ''platform_type'' ps]) \<and>
   filter (is_terms_on ''tags'') (build_filter_context p t m) =
     (case t of None \<Rightarrow> []
      | Some ts \<Rightarrow> if ts = [] then [] else [Terms ''tags_filter'' ''tags'' ts]) \<and>
   filter (is_range_on ''quality_score'') (build_filter_context p t m) =
     (case m of None \<Rightarrow> [] | Some b \<Rightarrow> [Range ''quality_filter'' ''quality_score'' b]) \<and>
   length (build_filter_context p t m) =
     (if truthy_list p then 1 else 0) + (if truthy_list t then 1 else 0) +
     (if m = None then 0 else 1)"
  by (auto simp: build_filter_context_def truthy_list_def Let_def split: option.splits)

theorem build_filter_context_clauses_witness:
  "build_filter_context (Some [''EDR'']) (Some []) (Some 0) =
     [Terms ''platform_filter'' ''platform_type'' [''EDR''],
      Range ''quality_filter'' ''quality_score'' 0] \<and>
   filter (is_range_on ''quality_score'') (build_filter_context (Some [''EDR'']) (Some []) (Some 0)) =
     [Range ''quality_filter'' ''quality_score'' 0]"
  using build_filter_context_clauses [of "Some [''EDR'']" "Some []" "Some 0"]
  by (simp add: build_filter_context_def truthy_list_def)

lemma Search_new_timeout: "Search_new [(''timeout'', v)] = Inl (TypeError ''timeout'')"
  by (simp add: Search_new_def Search_keywords_def)

lemma build_search_query_from_page_number:
  "build_search_query_from s q = Inl (AttributeError ''page_number'')"
  by (simp add: build_search_query_from_def Let_def getattr_page_number)


text \<open>
  C6. The claim wants pagination \<open>from = (page_number - 1) * page_size\<close> in the built
  expression. For every query the builder returns no expression. Its first statement
  passes the keyword \<open>timeout\<close> to the \<open>Search\<close> constructor, which does not take it,
  and raises \<open>TypeError\<close>. And whatever search object the rest of the body is given, its
  pagination step reads \<open>page_number\<close> and \<open>page_size\<close> from the query object, where
  \<open>SearchQuery\<close> declares \<open>from_\<close> and \<open>size\<close> instead, and raises \<open>AttributeError\<close>.
\<close>

theorem build_search_query_raises:
  "build_search_query q = Inl (TypeError ''timeout'') \<and>
   build_search_query_from s q = Inl (AttributeError ''page_number'')"
  by (simp add: build_search_query_def and_then_def Search_new_timeout
      build_search_query_from_def Let_def getattr_page_number)

section \<open>Properties of the result models and the search service\<close>

lemma from_detection_sample:
  "\<exists>doc. from_detection sample_detection = Inr doc"
  by (simp add: from_detection_def sample_detection_def and_then_def getitem_def
      metadata_of_def dict_get_def)

lemma normalize_score_range: "0 \<le> normalize_score v \<and> normalize_score v \<le> 1"
  by (simp add: normalize_score_def)

lemma process_hits_raises: "isl (process_hits (hit # rest))"
  by (simp add: and_then_def to_search_hit_def split: sum.splits)

lemma assemble_result_no_hit: "assemble_result response = Inr r \<Longrightarrow> hits r = []"
proof (cases "resp_hits response")
  case Nil
  then show "assemble_result response = Inr r \<Longrightarrow> hits r = []"
    by (auto simp: assemble_result_def and_then_def SearchResult_new_def
        split: sum.splits option.splits if_splits)
next
  case (Cons hit rest)
  then have "isl (assemble_result response)"
    using process_hits_raises [of hit rest]
    by (cases "process_hits (hit # rest)") (simp_all add: assemble_result_def and_then_def)
  then show "assemble_result response = Inr r \<Longrightarrow> hits r = []" by simp
qed










lemma timedelta_seconds_small:
  "0 \<le> d \<Longrightarrow> d < 86400 * 1000000 \<Longrightarrow> timedelta_seconds d = d div 1000000"
  by (simp add: timedelta_seconds_def)

lemma cache_hit_within_ttl:
  "0 \<le> d \<Longrightarrow> d < 300 * 1000000 \<Longrightarrow>
   get_from_cache (t + d) k (add_to_cache t k r c) = Some r"
  by (simp add: get_from_cache_def add_to_cache_def timedelta_seconds_small CACHE_TTL_def)

lemma cache_lookup_after_store:
  "get_from_cache (t + d) k (add_to_cache t k r c) =
     (if timedelta_seconds d < 300 then Some r else None)"
  by (simp add: get_from_cache_def add_to_cache_def CACHE_TTL_def)

text \<open>
  C2. A lookup less than 300 seconds after the store is a hit (\<open>cache_hit_within_ttl\<close>).
  The second half of the claim, that every lookup 300 seconds or more after the store is a
  miss, fails: the age is read from the \<open>seconds\<close> component of the time difference,
  which starts again at 0 with every full day. A lookup exactly one day (86400 seconds)
  after the store returns the stored result.
\<close>

theorem cache_hit_after_one_day:
  "get_from_cache (t + 86400 * 1000000) k (add_to_cache t k r c) = Some r"
  by (simp add: get_from_cache_def add_to_cache_def timedelta_seconds_def CACHE_TTL_def)

lemma refresh_index_red:
  "cluster_health be = Inr h \<Longrightarrow> map_of h ''status'' = Some (PStr ''red'') \<Longrightarrow>
   refresh_index be st = (Inr False, called ClusterHealth st)"
  by (simp add: refresh_index_def refresh_index_body_def Let_def and_then_def getitem_def
      error_handler_def)

lemma index_detection_ignores_health:
  "index_detection (be\<lparr>cluster_health := h\<rparr>) now st d = index_detection be now st d"
  by (simp add: index_detection_def index_detection_body_def Let_def split: sum.splits)

text \<open>
  C7. \<open>refresh_index\<close> asks for the cluster health first and returns \<open>False\<close> without a
  refresh when it is red (\<open>refresh_index_red\<close>). \<open>index_detection\<close> never asks: with a
  red cluster it saves the document, clears the cache and returns \<open>True\<close>, and the only
  backend call it makes is the save.
\<close>

theorem index_detection_on_red_cluster:
  "index_detection (sample_backend ''red'' None) now
     \<lparr>cache_of = [''search:k'' \<mapsto> (sample_result, 0)], calls = []\<rparr> sample_detection =
   (Inr True, \<lparr>cache_of = Map.empty, calls = [DocSave]\<rparr>)"
proof -
  obtain doc where doc: "from_detection sample_detection = Inr doc"
    using from_detection_sample by blast
  then show ?thesis
    by (simp add: index_detection_def index_detection_body_def Let_def sample_backend_def
        called_def clear_related_caches_def error_handler_def)
qed

text \<open>
  C8, as the claim states it, fails for one input: when the constructor is called without
  a performance-metrics argument, the field takes its default, the empty record, and the
  validator is not run on a default. The result is a \<open>SearchResult\<close> whose record lacks
  all three keys.
\<close>

theorem default_metrics_counterexample:
  "SearchResult_new
     \<lparr>arg_hits = [], arg_total = 0, arg_took_ms = 0, arg_max_score = 0,
      arg_aggregations = None, arg_performance_metrics = None\<rparr> =
   Inr \<lparr>hits = [], total = 0, took_ms = 0, max_score = 0, aggregations = [],
        performance_metrics = []\<rparr> \<and>
   ''total_shards'' \<notin> keys []"
  by (simp add: SearchResult_new_def keys_def)

text \<open>
  C8, amended. Constructing a \<open>SearchResult\<close> with a performance-metrics record passed
  to the constructor that lacks any of the three keys \<open>query_time_ms\<close>, \<open>total_shards\<close>,
  \<open>successful_shards\<close> fails with a validation error, whatever the other arguments. The
  result assembly of \<open>search\<close> always passes the record, and a response without the
  \<open>_shards\<close> telemetry, or without its total or successful count, makes the assembly
  fail: no result is built.
\<close>

theorem missing_metrics_rejected:
  "(arg_performance_metrics a = Some v \<and>
    \<not> {''query_time_ms'', ''total_shards'', ''successful_shards''} \<subseteq> keys v \<longrightarrow>
      (\<exists>m. SearchResult_new a = Inl (ValidationError m))) \<and>
   ((resp_shards response = None \<or>
     (\<exists>s. resp_shards response = Some s \<and>
          (''total'' \<notin> keys s \<or> ''successful'' \<notin> keys s))) \<longrightarrow>
      isl (assemble_result response))"
proof (intro conjI impI)
  assume "arg_performance_metrics a = Some v \<and>
    \<not> {''query_time_ms'', ''total_shards'', ''successful_shards''} \<subseteq> keys v"
  then have v: "arg_performance_metrics a = Some v"
    and "{''query_time_ms'', ''total_shards'', ''successful_shards''} - keys v \<noteq> {}"
    by auto
  then have "validate_performance v = Inl (ValueError ''Missing required performance metrics'')"
    by (simp add: validate_performance_def Let_def)
  with v show "\<exists>m. SearchResult_new a = Inl (ValidationError m)"
    by (simp add: SearchResult_new_def)
next
  assume miss: "resp_shards response = None \<or>
     (\<exists>s. resp_shards response = Some s \<and>
          (''total'' \<notin> keys s \<or> ''successful'' \<notin> keys s))"
  have absent: "\<And>s k. k \<notin> keys s \<Longrightarrow> attr_get s k = Inl (AttributeError k)"
    by (auto simp: attr_get_def keys_def map_of_eq_None_iff split: option.splits)
  show "isl (assemble_result response)"
  proof (cases "process_hits (resp_hits response)")
    case (Inl e)
    then show ?thesis by (simp add: assemble_result_def and_then_def)
  next
    case (Inr hs)
    from miss show ?thesis
    proof
      assume "resp_shards response = None"
      with Inr show ?thesis by (simp add: assemble_result_def and_then_def)
    next
      assume "\<exists>s. resp_shards response = Some s \<and>
          (''total'' \<notin> keys s \<or> ''successful'' \<notin> keys s)"
      then obtain s where s: "resp_shards response = Some s"
        and k: "''total'' \<notin> keys s \<or> ''successful'' \<notin> keys s" by blast
      from k show ?thesis
      proof
        assume "''total'' \<notin> keys s"
        with Inr s show ?thesis
          by (simp add: assemble_result_def and_then_def absent)
      next
        assume "''successful'' \<notin> keys s"
        with Inr s show ?thesis
          by (cases "attr_get s ''total''")
            (simp_all add: assemble_result_def and_then_def absent)
      qed
    qed
  qed
qed

theorem missing_metrics_rejected_witness:
  "(\<exists>m. SearchResult_new
          \<lparr>arg_hits = [], arg_total = 0, arg_took_ms = 0, arg_max_score = 0,
           arg_aggregations = None,
           arg_performance_metrics = Some [(''query_time_ms'', PInt 5)]\<rparr> =
        Inl (ValidationError m)) \<and>
   isl (assemble_result
         ((sample_response 1)\<lparr>resp_hits := [], resp_shards := Some [(''total'', PInt 3)]\<rparr>))"
proof -
  let ?a = "\<lparr>arg_hits = [], arg_total = 0, arg_took_ms = 0, arg_max_score = 0,
           arg_aggregations = None,
           arg_performance_metrics = Some [(''query_time_ms'', PInt 5)]\<rparr>"
  let ?r = "(sample_response 1)\<lparr>resp_hits := [], resp_shards := Some [(''total'', PInt 3)]\<rparr>"
  have h1: "arg_performance_metrics ?a = Some [(''query_time_ms'', PInt 5)] \<and>
    \<not> {''query_time_ms'', ''total_shards'', ''successful_shards''}
        \<subseteq> keys [(''query_time_ms'', PInt 5)]"
    by (simp add: keys_def)
  have h2: "resp_shards ?r = None \<or>
     (\<exists>s. resp_shards ?r = Some s \<and> (''total'' \<notin> keys s \<or> ''successful'' \<notin> keys s))"
    by (simp add: keys_def)
  from h1 h2 missing_metrics_rejected [of ?a "[(''query_time_ms'', PInt 5)]" ?r]
  show ?thesis by blast
qed

text \<open>
  C10. Whenever the save inside \<open>index_detection\<close> does not succeed for the document
  built from the payload, \<open>index_detection\<close> returns \<open>False\<close>, raises nothing, and leaves
  the cache as it was, for every payload; the cache is cleared only after a save that
  succeeded.
\<close>

theorem index_detection_save_fails:
  "(\<forall>doc. from_detection d = Inr doc \<longrightarrow> doc_save be (with_version now doc) \<noteq> None) \<Longrightarrow>
   fst (index_detection be now st d) = Inr False \<and>
   cache_of (snd (index_detection be now st d)) = cache_of st"
  by (cases "from_detection d")
    (auto simp: index_detection_def index_detection_body_def Let_def called_def
      error_handler_def split: option.splits)

theorem index_detection_save_fails_witness:
  "fst (index_detection (sample_backend ''green'' (Some (ConnectionTimeout ''save''))) 0
          \<lparr>cache_of = [''search:k'' \<mapsto> (sample_result, 0)], calls = []\<rparr> sample_detection)
     = Inr False \<and>
   cache_of (snd (index_detection (sample_backend ''green'' (Some (ConnectionTimeout ''save''))) 0
          \<lparr>cache_of = [''search:k'' \<mapsto> (sample_result, 0)], calls = []\<rparr> sample_detection))
     = [''search:k'' \<mapsto> (sample_result, 0)]"
proof -
  have h: "\<forall>doc. from_detection sample_detection = Inr doc \<longrightarrow>
      doc_save (sample_backend ''green'' (Some (ConnectionTimeout ''save'')))
        (with_version 0 doc) \<noteq> None"
    by (simp add: sample_backend_def)
  from index_detection_save_fails [OF h,
      of "\<lparr>cache_of = [''search:k'' \<mapsto> (sample_result, 0)], calls = []\<rparr>"]
  show ?thesis by simp
qed

section \<open>Properties of the circuit breaker and the retry decorator\<close>

lemma call_seq_failures:
  "\<forall>c\<in>set cs. isl (outcome c) \<Longrightarrow> chained (last_failure_time cb) cs \<Longrightarrow>
   failures cb + int (length cs) \<le> 5 \<Longrightarrow>
   failures (snd (call_seq cs cb)) = failures cb + int (length cs) \<and>
   last_failure_time (snd (call_seq cs cb)) =
     (if cs = [] then last_failure_time cb else failed_at (last cs)) \<and>
   list_all reached_backend (fst (call_seq cs cb))"
proof (induction cs arbitrary: cb)
  case Nil
  then show ?case by simp
next
  case (Cons c cs)
  from Cons.prems obtain e where e: "outcome c = Inl e"
    by (cases "outcome c") auto
  from Cons.prems have near: "asked_at c - last_failure_time cb \<le> reset_timeout"
    and few: "failures cb < 5" by auto
  let ?cb = "record_failure (failed_at c) cb"
  have step: "circuit_breaker c cb = (\<lparr>returned = Inl e, reached_backend = True\<rparr>, ?cb)"
    using e near few by (simp add: circuit_breaker_def is_open_def failure_threshold_def)
  have "\<forall>c\<in>set cs. isl (outcome c)" "chained (last_failure_time ?cb) cs"
    "failures ?cb + int (length cs) \<le> 5"
    using Cons.prems by (auto simp: record_failure_def)
  from Cons.IH [OF this] show ?case
    by (auto simp: step record_failure_def split: prod.splits)
qed

lemma first_failure:
  "failures cb = 0 \<Longrightarrow> outcome c = Inl e \<Longrightarrow>
   circuit_breaker c cb =
     (\<lparr>returned = Inl e, reached_backend = True\<rparr>,
      cb\<lparr>failures := 1, last_failure_time := failed_at c\<rparr>)"
  by (simp add: circuit_breaker_def is_open_def failure_threshold_def record_failure_def)

lemma open_fails_fast:
  "5 \<le> failures cb \<Longrightarrow> asked_at c - last_failure_time cb \<le> reset_timeout \<Longrightarrow>
   circuit_breaker c cb =
     (\<lparr>returned = Inl (PlainException ''Service temporarily unavailable''),
       reached_backend = False\<rparr>, cb)"
  by (simp add: circuit_breaker_def is_open_def failure_threshold_def)

lemma reset_reaches_backend:
  "asked_at c - last_failure_time cb > reset_timeout \<Longrightarrow>
   reached_backend (fst (circuit_breaker c cb)) \<and>
   returned (fst (circuit_breaker c cb)) = outcome c \<and>
   failures (snd (circuit_breaker c cb)) = (if isl (outcome c) then 1 else 0)"
  by (cases "outcome c")
    (simp_all add: circuit_breaker_def is_open_def record_failure_def)

lemma spaced_run:
  "call_seq spaced_failures CircuitBreaker_init =
     (replicate 5 \<lparr>returned = Inl (PlainException ''call failed''), reached_backend = True\<rparr>,
      \<lparr>failures = 1, last_failure_time = 1401\<rparr>)"
  by (simp add: spaced_failures_def CircuitBreaker_init_def circuit_breaker_def
      is_open_def record_failure_def reset_timeout_def failure_threshold_def
      numeral_eq_Suc)

lemma quick_run:
  "call_seq quick_failures CircuitBreaker_init =
     (replicate 5 \<lparr>returned = Inl (PlainException ''call failed''), reached_backend = True\<rparr>,
      \<lparr>failures = 5, last_failure_time = 1041\<rparr>)"
  by (simp add: quick_failures_def CircuitBreaker_init_def circuit_breaker_def
      is_open_def record_failure_def reset_timeout_def failure_threshold_def
      numeral_eq_Suc)

text \<open>
  C4, as the claim states it, fails: five consecutive failed calls that are 100 seconds
  apart never open the circuit, because the count is reset whenever the breaker is asked
  more than 60 seconds after the last failure. The call made 9 seconds after the fifth
  failure reaches the backend.
\<close>

theorem spaced_failures_counterexample:
  "map reached_backend (fst (call_seq spaced_failures CircuitBreaker_init)) =
     [True, True, True, True, True] \<and>
   map isl (map returned (fst (call_seq spaced_failures CircuitBreaker_init))) =
     [True, True, True, True, True] \<and>
   fst (circuit_breaker (next_call 1410) (snd (call_seq spaced_failures CircuitBreaker_init))) =
     \<lparr>returned = Inr (), reached_backend = True\<rparr>"
  by (simp add: spaced_run next_call_def circuit_breaker_def is_open_def
      reset_timeout_def failure_threshold_def numeral_eq_Suc)

text \<open>
  C4, amended. Starting from a breaker with no counted failure, after 5 calls whose
  wrapped function raised, each made no more than 60 seconds after the failure recorded
  before it, all five reach the backend, and the next call, made no more than 60 seconds
  after the last recorded failure, fails fast with "Service temporarily unavailable"
  without calling the backend. Once more than 60 seconds have passed since the last
  recorded failure, the breaker resets its count when it is asked, whatever its state, and
  that call reaches the backend.
\<close>

theorem circuit_breaker_opens_and_resets:
  "(failures cb = 0 \<and> length (c # cs) = 5 \<and> (\<forall>x\<in>set (c # cs). isl (outcome x)) \<and>
    chained (failed_at c) cs \<and>
    asked_at nxt - failed_at (last (c # cs)) \<le> reset_timeout \<longrightarrow>
      list_all reached_backend (fst (call_seq (c # cs) cb)) \<and>
      fst (circuit_breaker nxt (snd (call_seq (c # cs) cb))) =
        \<lparr>returned = Inl (PlainException ''Service temporarily unavailable''),
         reached_backend = False\<rparr>) \<and>
   (asked_at nxt - last_failure_time cb' > reset_timeout \<longrightarrow>
      reached_backend (fst (circuit_breaker nxt cb')) \<and>
      returned (fst (circuit_breaker nxt cb')) = outcome nxt \<and>
      failures (snd (circuit_breaker nxt cb')) \<le> 1)"
proof (intro conjI impI)
  assume a: "failures cb = 0 \<and> length (c # cs) = 5 \<and> (\<forall>x\<in>set (c # cs). isl (outcome x)) \<and>
    chained (failed_at c) cs \<and>
    asked_at nxt - failed_at (last (c # cs)) \<le> reset_timeout"
  then obtain e where e: "outcome c = Inl e" by (cases "outcome c") auto
  let ?cb = "cb\<lparr>failures := 1, last_failure_time := failed_at c\<rparr>"
  have first: "circuit_breaker c cb = (\<lparr>returned = Inl e, reached_backend = True\<rparr>, ?cb)"
    using a e by (simp add: first_failure)
  have "\<forall>x\<in>set cs. isl (outcome x)" "chained (last_failure_time ?cb) cs"
    "failures ?cb + int (length cs) \<le> 5"
    using a by auto
  note rest = call_seq_failures [OF this]
  have fin: "failures (snd (call_seq (c # cs) cb)) = 5"
    "last_failure_time (snd (call_seq (c # cs) cb)) = failed_at (last (c # cs))"
    "list_all reached_backend (fst (call_seq (c # cs) cb))"
    using rest a by (auto simp: first split: prod.splits)
  show "list_all reached_backend (fst (call_seq (c # cs) cb))" by (rule fin)
  show "fst (circuit_breaker nxt (snd (call_seq (c # cs) cb))) =
        \<lparr>returned = Inl (PlainException ''Service temporarily unavailable''),
         reached_backend = False\<rparr>"
    using a fin by (subst open_fails_fast) simp_all
next
  assume "asked_at nxt - last_failure_time cb' > reset_timeout"
  from reset_reaches_backend [OF this]
  show "reached_backend (fst (circuit_breaker nxt cb'))"
    "returned (fst (circuit_breaker nxt cb')) = outcome nxt"
    "failures (snd (circuit_breaker nxt cb')) \<le> 1"
    by auto
qed

theorem circuit_breaker_opens_and_resets_witness:
  "fst (circuit_breaker (next_call 1050) (snd (call_seq quick_failures CircuitBreaker_init))) =
     \<lparr>returned = Inl (PlainException ''Service temporarily unavailable''),
      reached_backend = False\<rparr> \<and>
   reached_backend (fst (circuit_breaker (next_call 1102)
      (snd (call_seq quick_failures CircuitBreaker_init))))"
proof -
  define c :: "unit call" where
    "c = \<lparr>outcome = Inl (PlainException ''call failed''), asked_at = 1000, failed_at = 1001\<rparr>"
  define cs :: "unit call list" where "cs = tl quick_failures"
  have q: "c # cs = quick_failures" by (simp add: quick_failures_def c_def cs_def)
  have h1: "failures CircuitBreaker_init = 0 \<and> length (c # cs) = 5 \<and>
    (\<forall>x\<in>set (c # cs). isl (outcome x)) \<and> chained (failed_at c) cs \<and>
    asked_at (next_call 1050) - failed_at (last (c # cs)) \<le> reset_timeout"
    by (simp add: c_def cs_def quick_failures_def CircuitBreaker_init_def next_call_def
        reset_timeout_def)
  have h2: "asked_at (next_call 1102) -
      last_failure_time (snd (call_seq quick_failures CircuitBreaker_init)) > reset_timeout"
    by (simp add: quick_run next_call_def reset_timeout_def)
  from h1 h2
    circuit_breaker_opens_and_resets
      [of CircuitBreaker_init c cs "next_call 1050" CircuitBreaker_init]
    circuit_breaker_opens_and_resets
      [of CircuitBreaker_init c cs "next_call 1102"
          "snd (call_seq quick_failures CircuitBreaker_init)"]
  show ?thesis by (simp only: q) blast
qed

lemma wait_exponential_range: "4 \<le> wait_exponential 1 4 10 n \<and> wait_exponential 1 4 10 n \<le> 10"
  by (simp add: wait_exponential_def)

lemma retry_loop_3:
  "retry_loop f 3 s =
     (case f 3 of
        Inr v \<Rightarrow> \<lparr>result = Inr v, attempts = 3, sleeps = s\<rparr>
      | Inl e \<Rightarrow> \<lparr>result = Inl (RetryError e), attempts = 3, sleeps = s\<rparr>)"
  by (subst retry_loop.simps) (simp add: stop_after_attempt_def split: sum.splits)

lemma retry_loop_2:
  "retry_loop f 2 s =
     (case f 2 of
        Inr v \<Rightarrow> \<lparr>result = Inr v, attempts = 2, sleeps = s\<rparr>
      | Inl e \<Rightarrow> retry_loop f 3 (s @ [4]))"
  by (subst retry_loop.simps)
    (simp add: stop_after_attempt_def wait_exponential_def del: One_nat_def split: sum.splits)

lemma retry_loop_1:
  "retry_loop f 1 s =
     (case f 1 of
        Inr v \<Rightarrow> \<lparr>result = Inr v, attempts = 1, sleeps = s\<rparr>
      | Inl e \<Rightarrow> retry_loop f 2 (s @ [4]))"
  by (subst retry_loop.simps)
    (simp add: stop_after_attempt_def wait_exponential_def del: One_nat_def split: sum.splits)

lemma retry_unfolded:
  "retry f =
     (case f 1 of
        Inr v \<Rightarrow> \<lparr>result = Inr v, attempts = 1, sleeps = []\<rparr>
      | Inl e1 \<Rightarrow>
        (case f 2 of
           Inr v \<Rightarrow> \<lparr>result = Inr v, attempts = 2, sleeps = [4]\<rparr>
         | Inl e2 \<Rightarrow>
           (case f 3 of
              Inr v \<Rightarrow> \<lparr>result = Inr v, attempts = 3, sleeps = [4, 4]\<rparr>
            | Inl e3 \<Rightarrow> \<lparr>result = Inl (RetryError e3), attempts = 3, sleeps = [4, 4]\<rparr>)))"
  by (simp add: retry_def retry_loop_1 retry_loop_2 retry_loop_3 del: One_nat_def split: sum.splits)

text \<open>
  C5, as the claim states it, fails: a malformed call, one that lacks a required argument
  and so raises \<open>TypeError\<close> every time, is not surfaced at once but attempted 3 times,
  with two sleeps of 4 seconds.
\<close>

theorem malformed_request_retried_counterexample:
  "always_malformed 1 = Inl (TypeError ''missing 1 required positional argument'') \<and>
   attempts (retry always_malformed) = 3 \<and> sleeps (retry always_malformed) = [4, 4]"
  by (simp add: retry_unfolded always_malformed_def del: One_nat_def)

text \<open>
  C5, amended. Every decorated call is attempted at least once and at most 3 times, with a
  sleep between 4 and 10 seconds before each further attempt; an attempt that raises is
  retried whatever its exception, since the decorator classifies nothing; after a third
  attempt that raised the caller gets \<open>RetryError\<close> around the last exception, and
  otherwise what the first attempt that did not raise returned.
\<close>

theorem retry_bounded_any_error:
  "1 \<le> attempts (retry f) \<and> attempts (retry f) \<le> 3 \<and>
   length (sleeps (retry f)) = attempts (retry f) - 1 \<and>
   (\<forall>w\<in>set (sleeps (retry f)). 4 \<le> w \<and> w \<le> 10) \<and>
   (isl (f 1) \<longrightarrow> 2 \<le> attempts (retry f)) \<and>
   (isl (f 1) \<and> isl (f 2) \<longrightarrow> attempts (retry f) = 3) \<and>
   (isl (f 1) \<and> isl (f 2) \<and> isl (f 3) \<longrightarrow>
      result (retry f) = Inl (RetryError (projl (f 3)))) \<and>
   (\<not> isl (f (attempts (retry f))) \<longrightarrow> result (retry f) = f (attempts (retry f)))"
  by (cases "f 1"; cases "f 2"; cases "f 3") (simp_all add: retry_unfolded del: One_nat_def)

theorem retry_bounded_any_error_witness:
  "attempts (retry third_time_lucky) = 3 \<and> sleeps (retry third_time_lucky) = [4, 4] \<and>
   result (retry third_time_lucky) = Inr ()"
  using retry_bounded_any_error [of third_time_lucky]
  by (simp add: retry_unfolded third_time_lucky_def del: One_nat_def)

end
